theory Spec2Isabelle
  imports Main "HOL-Library.Sublist"
begin

section \<open>Python strings\<close>

text \<open>
  The scraper works on Python \<open>str\<close> values. They are modelled as \<open>string\<close>; the
  character classes below are those of Python on ASCII text (\<open>str.isspace\<close>,
  \<open>str.isupper\<close>, the regex classes \<open>\s\<close>, \<open>\d\<close>, \<open>\w\<close>). A character outside ASCII
  is treated as an uncased symbol that is neither a space, a digit nor a word character.
\<close>

definition uppers :: string where
  "uppers = ''ABCDEFGHIJKLMNOPQRSTUVWXYZ''"

definition lowers :: string where
  "lowers = ''abcdefghijklmnopqrstuvwxyz''"

definition is_upper :: "char \<Rightarrow> bool" where
  "is_upper c = (c \<in> set uppers)"

definition is_lower :: "char \<Rightarrow> bool" where
  "is_lower c = (c \<in> set lowers)"

definition is_digit :: "char \<Rightarrow> bool" where
  "is_digit c = (c \<in> set ''0123456789'')"

text \<open>\<open>str.isspace\<close> and \<open>\s\<close> on ASCII: tab, line feed, vertical tab, form feed,
  carriage return, the four separators 0x1C..0x1F and the space.\<close>

definition is_space :: "char \<Rightarrow> bool" where
  "is_space c = (c \<in> set [CHR 0x09, CHR 0x0A, CHR 0x0B, CHR 0x0C, CHR 0x0D,
                            CHR 0x1C, CHR 0x1D, CHR 0x1E, CHR 0x1F, CHR 0x20])"

text \<open>The regex class \<open>\w\<close>, which decides the word boundary \<open>\b\<close>.\<close>

definition is_word :: "char \<Rightarrow> bool" where
  "is_word c = (is_upper c \<or> is_lower c \<or> is_digit c \<or> c = CHR ''_'')"

definition to_lower :: "char \<Rightarrow> char" where
  "to_lower c = (case map_of (zip uppers lowers) c of Some d \<Rightarrow> d | None \<Rightarrow> c)"

definition to_upper :: "char \<Rightarrow> char" where
  "to_upper c = (case map_of (zip lowers uppers) c of Some d \<Rightarrow> d | None \<Rightarrow> c)"

text \<open>\<open>s.lower()\<close>\<close>

definition lower :: "string \<Rightarrow> string" where
  "lower s = map to_lower s"

text \<open>\<open>s.strip()\<close>\<close>

definition strip :: "string \<Rightarrow> string" where
  "strip s = rev (dropWhile is_space (rev (dropWhile is_space s)))"

text \<open>\<open>s.rstrip(chars)\<close>\<close>

definition rstrip :: "string \<Rightarrow> string \<Rightarrow> string" where
  "rstrip chars s = rev (dropWhile (\<lambda>c. c \<in> set chars) (rev s))"

text \<open>\<open>s.split()\<close>: the maximal runs of non-space characters, in order.\<close>

fun split_acc :: "string \<Rightarrow> string \<Rightarrow> string list" where
  "split_acc w [] = (if w = [] then [] else [rev w])"
| "split_acc w (c # cs) =
     (if is_space c then (if w = [] then split_acc [] cs else rev w # split_acc [] cs)
      else split_acc (c # w) cs)"

definition split_ws :: "string \<Rightarrow> string list" where
  "split_ws s = split_acc [] s"

text \<open>\<open>sep.join(parts)\<close>\<close>

fun join :: "string \<Rightarrow> string list \<Rightarrow> string" where
  "join sep [] = []"
| "join sep [x] = x"
| "join sep (x # y # ys) = x @ sep @ join sep (y # ys)"

text \<open>\<open>sub in s\<close> for strings.\<close>

fun contains :: "string \<Rightarrow> string \<Rightarrow> bool" where
  "contains [] sub = (sub = [])"
| "contains (c # cs) sub = (prefix sub (c # cs) \<or> contains cs sub)"

text \<open>\<open>s.replace(old, "")\<close> for a non-empty \<open>old\<close>: the occurrences found scanning from
  the left, not overlapping, are removed.\<close>

fun remove_all :: "string \<Rightarrow> string \<Rightarrow> string" where
  "remove_all old [] = []"
| "remove_all old (c # cs) =
     (if old \<noteq> [] \<and> prefix old (c # cs)
      then remove_all old (drop (length old) (c # cs))
      else c # remove_all old cs)"

section \<open>Regular expressions\<close>

text \<open>
  The fragment of Python's \<open>re\<close> that the scraper's patterns use, with the matching order
  of a backtracking matcher: a repetition is greedy, an optional part is tried before it
  is skipped, the alternatives are tried from the left. A position is the character
  before it, if any, and the rest of the text; \<open>ends\<close> lists, first choice first, the
  positions where a match of the pattern that starts at the given position can end,
  each with the texts of the groups closed on the way.
\<close>

datatype cclass = Ch char | Digit | Space | AnyChar

datatype regex =
    Atom cclass
  | Str string
  | Star cclass
  | Plus cclass
  | Opt regex
  | Seq regex regex
  | Alt regex regex
  | Group regex
  | WordB
  | NotAhead cclass

type_synonym pos = "char option \<times> string"

text \<open>One character against a class; \<open>ic\<close> is the flag \<open>re.IGNORECASE\<close>. The dot does
  not match a line feed.\<close>

fun cmatch :: "bool \<Rightarrow> cclass \<Rightarrow> char \<Rightarrow> bool" where
  "cmatch ic (Ch a) c = (if ic then to_lower a = to_lower c else a = c)"
| "cmatch ic Digit c = is_digit c"
| "cmatch ic Space c = is_space c"
| "cmatch ic AnyChar c = (c \<noteq> CHR 0x0A)"

fun str_ends :: "bool \<Rightarrow> string \<Rightarrow> pos \<Rightarrow> pos list" where
  "str_ends ic [] p = [p]"
| "str_ends ic (a # w) (prev, []) = []"
| "str_ends ic (a # w) (prev, c # cs) =
     (if cmatch ic (Ch a) c then str_ends ic w (Some c, cs) else [])"

fun star_ends :: "bool \<Rightarrow> cclass \<Rightarrow> pos \<Rightarrow> pos list" where
  "star_ends ic k (prev, []) = [(prev, [])]"
| "star_ends ic k (prev, c # cs) =
     (if cmatch ic k c then star_ends ic k (Some c, cs) @ [(prev, c # cs)]
      else [(prev, c # cs)])"

definition word_before :: "pos \<Rightarrow> bool" where
  "word_before p = (case fst p of None \<Rightarrow> False | Some c \<Rightarrow> is_word c)"

definition word_after :: "pos \<Rightarrow> bool" where
  "word_after p = (case snd p of [] \<Rightarrow> False | c # _ \<Rightarrow> is_word c)"

fun ends :: "bool \<Rightarrow> regex \<Rightarrow> pos \<Rightarrow> (string list \<times> pos) list" where
  "ends ic (Atom k) p =
     (case snd p of [] \<Rightarrow> []
      | c # cs \<Rightarrow> if cmatch ic k c then [([], (Some c, cs))] else [])"
| "ends ic (Str w) p = map (Pair []) (str_ends ic w p)"
| "ends ic (Star k) p = map (Pair []) (star_ends ic k p)"
| "ends ic (Plus k) p =
     (case snd p of [] \<Rightarrow> []
      | c # cs \<Rightarrow> if cmatch ic k c then map (Pair []) (star_ends ic k (Some c, cs)) else [])"
| "ends ic (Opt r) p = ends ic r p @ [([], p)]"
| "ends ic (Seq r1 r2) p =
     concat (map (\<lambda>(g1, p1). map (\<lambda>(g2, p2). (g1 @ g2, p2)) (ends ic r2 p1)) (ends ic r1 p))"
| "ends ic (Alt r1 r2) p = ends ic r1 p @ ends ic r2 p"
| "ends ic (Group r) p =
     map (\<lambda>(g, q). (g @ [take (length (snd p) - length (snd q)) (snd p)], q)) (ends ic r p)"
| "ends ic WordB p = (if word_before p = word_after p then [] else [([], p)])"
| "ends ic (NotAhead k) p =
     (case snd p of [] \<Rightarrow> [([], p)]
      | c # cs \<Rightarrow> if cmatch ic k c then [] else [([], p)])"

text \<open>The match that starts at a position: the first choice.\<close>

definition match_at :: "bool \<Rightarrow> regex \<Rightarrow> pos \<Rightarrow> (string list \<times> pos) option" where
  "match_at ic r p = (case ends ic r p of [] \<Rightarrow> None | m # _ \<Rightarrow> Some m)"

text \<open>\<open>re.search(pattern, text)\<close>: the match at the leftmost position that has one; the
  result is the list of its groups.\<close>

fun search_from :: "bool \<Rightarrow> regex \<Rightarrow> char option \<Rightarrow> string \<Rightarrow> string list option" where
  "search_from ic r prev [] = map_option fst (match_at ic r (prev, []))"
| "search_from ic r prev (c # cs) =
     (case match_at ic r (prev, c # cs) of
        Some m \<Rightarrow> Some (fst m)
      | None \<Rightarrow> search_from ic r (Some c) cs)"

definition re_search :: "bool \<Rightarrow> regex \<Rightarrow> string \<Rightarrow> string list option" where
  "re_search ic r s = search_from ic r None s"

text \<open>\<open>re.sub(pattern, repl, text)\<close> for a pattern that matches no empty text (as all
  patterns of the scraper): the matches found from the left, not overlapping, are
  replaced; the pattern sees the original text around a match.\<close>

function sub_from :: "regex \<Rightarrow> string \<Rightarrow> char option \<Rightarrow> string \<Rightarrow> string" where
  "sub_from r repl prev [] = []"
| "sub_from r repl prev (c # cs) =
     (case match_at False r (prev, c # cs) of
        None \<Rightarrow> c # sub_from r repl (Some c) cs
      | Some (g, q) \<Rightarrow>
          if length (snd q) < length (c # cs)
          then repl @ sub_from r repl (fst q) (snd q)
          else c # sub_from r repl (Some c) cs)"
  by pat_completeness auto
termination
  by (relation "measure (\<lambda>(r, repl, prev, s). length s)") auto

definition re_sub :: "regex \<Rightarrow> string \<Rightarrow> string \<Rightarrow> string" where
  "re_sub r repl s = sub_from r repl None s"

fun seqs :: "regex list \<Rightarrow> regex" where
  "seqs [] = Str []"
| "seqs [r] = r"
| "seqs (r # rs) = Seq r (seqs rs)"

fun alts :: "regex list \<Rightarrow> regex" where
  "alts [] = Str []"
| "alts [r] = r"
| "alts (r # rs) = Alt r (alts rs)"

section \<open>Python values and dictionaries\<close>

text \<open>
  A key of a JSON object is absent, present with the value \<open>null\<close>, or present with a
  value. A Python value that is \<open>None\<close> or a string is a \<open>string option\<close>.
\<close>

datatype 'a field = Absent | Null | Present 'a

text \<open>\<open>d.get(k)\<close> and \<open>d.get(k, default)\<close>: the default stands in for an absent key
  only; a key holding \<open>null\<close> gives \<open>None\<close>.\<close>

fun dict_get :: "'a field \<Rightarrow> 'a option" where
  "dict_get Absent = None"
| "dict_get Null = None"
| "dict_get (Present v) = Some v"

fun dict_get_or :: "'a field \<Rightarrow> 'a \<Rightarrow> 'a option" where
  "dict_get_or Absent dflt = Some dflt"
| "dict_get_or Null dflt = None"
| "dict_get_or (Present v) dflt = Some v"

text \<open>Truth value of \<open>None\<close> or a string: \<open>not v\<close>.\<close>

fun falsy :: "string option \<Rightarrow> bool" where
  "falsy None = True"
| "falsy (Some s) = (s = [])"

text \<open>The exceptions the typed operations of the scraper can raise.\<close>

datatype error = TypeError | AttributeError | IndexError

text \<open>The marker the scraper writes for a value it could not determine.\<close>

definition NA :: string where
  "NA = ''N/A''"

record detail =
  content_label :: "string field"
  content :: "string field"

section \<open>TextSanitizer: \<open>clean_text\<close>\<close>

text \<open>
  Modelled from the spec: \<open>BeautifulSoup(html_str, "html.parser").get_text(separator=" ",
  strip=True)\<close> is a call into the BeautifulSoup library, whose code is not under src/.
  Section 4.1 of the specification gives it as: the input is parsed as HTML, the visible
  text is extracted with a separating space between the pieces, parsing never fails and
  at worst yields the raw text with the tags stripped. The model takes a tag to run from
  a \<open><\<close> that is followed by a letter, \<open>/\<close>, \<open>!\<close> or \<open>?\<close> to the next \<open>>\<close>, strips each
  piece of text between tags, drops the empty pieces and joins the rest with one space.
  Character references (\<open>&amp;\<close>) are not decoded. On a text without \<open><\<close> and \<open>&\<close> the
  result is the stripped text, which is all the theorems below use of it.
\<close>

definition tag_start :: "string \<Rightarrow> bool" where
  "tag_start cs = (case cs of [] \<Rightarrow> False
     | c # _ \<Rightarrow> is_upper c \<or> is_lower c \<or> c \<in> set ''/!?'')"

fun text_pieces :: "bool \<Rightarrow> string \<Rightarrow> string \<Rightarrow> string list" where
  "text_pieces in_tag w [] = [rev w]"
| "text_pieces True w (c # cs) =
     (if c = CHR ''>'' then text_pieces False [] cs else text_pieces True w cs)"
| "text_pieces False w (c # cs) =
     (if c = CHR ''<'' \<and> tag_start cs \<and> CHR ''>'' \<in> set cs
      then rev w # text_pieces True [] cs
      else text_pieces False (c # w) cs)"

definition get_text :: "string \<Rightarrow> string" where
  "get_text html = join '' '' (filter (\<lambda>p. p \<noteq> []) (map strip (text_pieces False [] html)))"

text \<open>\<open>clean_text(html_str)\<close>, lines 56-76. The argument may be \<open>None\<close>.\<close>

definition clean_text :: "string option \<Rightarrow> string" where
  "clean_text html_str =
     (case html_str of
        None \<Rightarrow> []
      | Some s \<Rightarrow> if s = [] then [] else join '' '' (split_ws (get_text s)))"

section \<open>FieldExtractor: \<open>extract_detail\<close>\<close>

text \<open>The loop of lines 180-183 over the detail objects.\<close>

fun find_detail :: "detail list \<Rightarrow> string \<Rightarrow> string" where
  "find_detail [] label = []"
| "find_detail (detail_obj # rest) label =
     (if dict_get (content_label detail_obj) = Some label
      then clean_text (dict_get (content detail_obj))
      else find_detail rest label)"

text \<open>\<open>extract_detail(details, label)\<close>, lines 163-186; \<open>details\<close> is what
  \<open>prod.get("details")\<close> gave, so it may be \<open>None\<close>.\<close>

definition extract_detail :: "detail list option \<Rightarrow> string \<Rightarrow> string" where
  "extract_detail details label =
     (case details of
        None \<Rightarrow> []
      | Some ds \<Rightarrow> if ds = [] then [] else find_detail ds label)"

section \<open>IngredientFormatter: \<open>clean_ingredients\<close>\<close>

text \<open>\<open>s.title()\<close>: a letter that follows a letter is lowercased, any other letter is
  uppercased.\<close>

fun title_from :: "bool \<Rightarrow> string \<Rightarrow> string" where
  "title_from prev_cased [] = []"
| "title_from prev_cased (c # cs) =
     (if is_lower c then (if prev_cased then c else to_upper c) # title_from True cs
      else if is_upper c then (if prev_cased then to_lower c else c) # title_from True cs
      else c # title_from False cs)"

definition title :: "string \<Rightarrow> string" where
  "title s = title_from False s"

text \<open>\<open>r'\.(?!\d)'\<close>, line 114.\<close>

definition period_pat :: regex where
  "period_pat = Seq (Atom (Ch CHR ''.'')) (NotAhead Digit)"

text \<open>\<open>r'\bWord\b'\<close>, and the dictionary \<open>common_fixes\<close> of lines 122-139 in its
  insertion order.\<close>

definition word_pat :: "string \<Rightarrow> regex" where
  "word_pat w = seqs [WordB, Str w, WordB]"

definition common_fixes :: "(regex \<times> string) list" where
  "common_fixes =
     [(word_pat ''And'', ''and''), (word_pat ''Or'', ''or''), (word_pat ''Of'', ''of''),
      (word_pat ''In'', ''in''), (word_pat ''The'', ''the''), (word_pat ''With'', ''with''),
      (word_pat ''From'', ''from''), (word_pat ''To'', ''to''), (word_pat ''As'', ''as''),
      (word_pat ''By'', ''by''), (word_pat ''For'', ''for''), (word_pat ''On'', ''on''),
      (word_pat ''At'', ''at''), (word_pat ''Is'', ''is''), (word_pat ''A'', ''a''),
      (word_pat ''An'', ''an'')]"

text \<open>The loop of lines 142-143.\<close>

fun apply_fixes :: "(regex \<times> string) list \<Rightarrow> string \<Rightarrow> string" where
  "apply_fixes [] cleaned_text = cleaned_text"
| "apply_fixes ((pattern, replacement) # rest) cleaned_text =
     apply_fixes rest (re_sub pattern replacement cleaned_text)"

text \<open>\<open>r',\s*,+'\<close>, \<open>r'\s*,\s*'\<close> and \<open>r'\s+'\<close>, lines 147-151.\<close>

definition commas_pat :: regex where
  "commas_pat = seqs [Atom (Ch CHR '',''), Star Space, Plus (Ch CHR '','')]"

definition comma_space_pat :: regex where
  "comma_space_pat = seqs [Star Space, Atom (Ch CHR '',''), Star Space]"

definition spaces_pat :: regex where
  "spaces_pat = Plus Space"

text \<open>Lines 111-154: the steps applied to the sanitized text.\<close>

definition format_steps :: "string \<Rightarrow> string" where
  "format_steps cleaned_text =
     (let t1 = re_sub period_pat '','' cleaned_text;
          t2 = title t1;
          t3 = apply_fixes common_fixes t2;
          t4 = re_sub commas_pat '','' t3;
          t5 = re_sub comma_space_pat '', '' t4;
          t6 = strip (re_sub spaces_pat '' '' t5)
      in rstrip '', '' t6)"

text \<open>\<open>clean_ingredients(ingredients_text)\<close>, lines 78-156. The argument may be
  \<open>None\<close>, which is returned as it is.\<close>

definition clean_ingredients :: "string option \<Rightarrow> string option" where
  "clean_ingredients ingredients_text =
     (if falsy ingredients_text \<or> ingredients_text = Some ''N/A'' then ingredients_text
      else let cleaned_text = clean_text ingredients_text
           in if cleaned_text = [] \<or> strip cleaned_text = [] then Some ''N/A''
              else Some (format_steps cleaned_text))"

section \<open>Pattern search: \<open>search_text_for_patterns\<close>\<close>

text \<open>The loop of lines 205-208; the result is the groups of the first match.\<close>

fun first_pattern_match :: "string \<Rightarrow> regex list \<Rightarrow> string list option" where
  "first_pattern_match txt [] = None"
| "first_pattern_match txt (pattern # rest) =
     (case re_search True pattern txt of
        Some m \<Rightarrow> Some m
      | None \<Rightarrow> first_pattern_match txt rest)"

definition search_text_for_patterns :: "string \<Rightarrow> regex list \<Rightarrow> string list option" where
  "search_text_for_patterns txt patterns =
     (if txt = [] then None else first_pattern_match txt patterns)"

section \<open>ConcernClassifier: \<open>get_skin_concerns\<close>\<close>

text \<open>The dictionary \<open>concern_patterns\<close> of lines 234-246 in its insertion order.\<close>

definition ws_between :: "string \<Rightarrow> string \<Rightarrow> regex" where
  "ws_between a b = seqs [Str a, Star Space, Str b]"

definition concern_patterns :: "(string \<times> regex list) list" where
  "concern_patterns =
     [(''acne'', [Str ''acne'', Str ''pimple'', Str ''breakout'', Str ''blemish'']),
      (''dry skin'', [ws_between ''dry'' ''skin'', Str ''dehydrat'', Str ''moisturiz'',
                      Str ''hydrat'']),
      (''oily skin'', [ws_between ''oily'' ''skin'', ws_between ''excess'' ''oil'',
                       Str ''sebum'']),
      (''sensitive skin'', [ws_between ''sensitive'' ''skin'', Str ''gentle'', Str ''sooth'',
                            Str ''calm'']),
      (''anti-aging'', [seqs [Str ''anti'', Opt (Atom AnyChar), Str ''aging''], Str ''wrinkle'',
                        ws_between ''fine'' ''line'', Str ''firm'']),
      (''hyperpigmentation'', [Str ''hyperpigment'', ws_between ''dark'' ''spot'',
                               Str ''discolor'']),
      (''sun protection'', [Str ''spf'', ws_between ''sun'' ''protection'', Str ''sunscreen'']),
      (''rosacea'', [Str ''rosacea'', Str ''redness'']),
      (''eczema'', [Str ''eczema'', Str ''dermatitis'']),
      (''mature skin'', [ws_between ''mature'' ''skin'', ws_between ''aging'' ''skin'']),
      (''dullness'', [Str ''dull'', Str ''brighten'', Str ''radiance'', Str ''glow''])]"

text \<open>The inner loop of lines 253-258: the first pattern that matches adds the concern,
  unless it is already there, and ends the loop.\<close>

fun try_patterns :: "string \<Rightarrow> string \<Rightarrow> regex list \<Rightarrow> string list \<Rightarrow> string list" where
  "try_patterns txt concern [] detected_concerns = detected_concerns"
| "try_patterns txt concern (pattern # rest) detected_concerns =
     (case re_search False pattern txt of
        Some m \<Rightarrow>
          if concern \<in> set detected_concerns then detected_concerns
          else detected_concerns @ [concern]
      | None \<Rightarrow> try_patterns txt concern rest detected_concerns)"

text \<open>The outer loop of lines 251-258.\<close>

fun scan_concerns :: "string \<Rightarrow> (string \<times> regex list) list \<Rightarrow> string list \<Rightarrow> string list" where
  "scan_concerns txt [] detected_concerns = detected_concerns"
| "scan_concerns txt ((concern, patterns) # rest) detected_concerns =
     scan_concerns txt rest (try_patterns txt concern patterns detected_concerns)"

text \<open>\<open>get_skin_concerns(text)\<close>, lines 213-260.\<close>

definition get_skin_concerns :: "string option \<Rightarrow> string list" where
  "get_skin_concerns txt =
     (case txt of
        None \<Rightarrow> []
      | Some t \<Rightarrow> if t = [] then [] else scan_concerns (lower t) concern_patterns [])"

section \<open>The raw product record\<close>

text \<open>
  The product object of the catalogue API with the keys the scraper reads. \<open>attributes\<close>
  and \<open>price\<close> hold, when present, the text that \<open>str()\<close> gives for the value; \<open>images\<close>
  is an object from names to addresses. The identifier, the name, the barcode and the
  brand name are represented for the values that are a string or \<open>null\<close>: the code
  copies them into the row as they are, so a JSON number under one of these keys reaches
  the row as a number, which this record leaves out.
\<close>

record brand_obj =
  brand_name :: "string field"

record product =
  product_id :: "string field"
  name :: "string field"
  brand :: "brand_obj field"
  details :: "detail list field"
  description :: "string field"
  attributes :: "string field"
  images :: "(string \<times> string option) list field"
  upc :: "string field"
  price :: "string field"

text \<open>The empty dictionary \<open>{}\<close>.\<close>

definition empty_product :: product where
  "empty_product =
     \<lparr>product_id = Absent, name = Absent, brand = Absent, details = Absent,
      description = Absent, attributes = Absent, images = Absent, upc = Absent,
      price = Absent\<rparr>"

section \<open>SizeExtractor: \<open>extract_size_volume\<close>\<close>

definition number_pat :: regex where
  "number_pat = Seq (Plus Digit) (Opt (Seq (Atom (Ch CHR ''.'')) (Plus Digit)))"

text \<open>A size pattern \<open>(number)\s*(unit|unit|...)\<close>.\<close>

definition size_pat :: "regex \<Rightarrow> regex list \<Rightarrow> regex" where
  "size_pat num units = seqs [Group num, Star Space, Group (alts units)]"

text \<open>The list \<open>size_patterns\<close> of lines 279-287.\<close>

definition size_patterns :: "regex list" where
  "size_patterns =
     [size_pat number_pat [Str ''ml'', Str ''mL'', Str ''ML''],
      size_pat number_pat [Str ''g'', Str ''gm'', Str ''GM'', Str ''gram'', Str ''grams''],
      size_pat number_pat [Str ''oz'', Str ''OZ'',
         seqs [Str ''fl'', Opt (Atom (Ch CHR ''.'')), Star Space, Str ''oz'']],
      size_pat number_pat [Str ''l'', Str ''L'', Str ''liter'', Str ''litre''],
      size_pat (Plus Digit) [Str ''tablet'', Str ''tablets'', Str ''caps'', Str ''capsule'',
         Str ''capsules''],
      size_pat (Plus Digit) [Str ''count'', Str ''ct'', Str ''pieces'', Str ''pcs''],
      size_pat number_pat [Str ''kg'', Str ''KG'', Str ''kilogram'']]"

text \<open>Line 293: the contents of the details joined with a space. Iterating \<open>None\<close> and
  joining a \<open>None\<close> raise \<open>TypeError\<close>.\<close>

definition detail_contents :: "product \<Rightarrow> error + string" where
  "detail_contents product_data =
     (case dict_get_or (details product_data) [] of
        None \<Rightarrow> Inl TypeError
      | Some ds \<Rightarrow>
          (case those (map (\<lambda>d. dict_get_or (content d) []) ds) of
             None \<Rightarrow> Inl TypeError
           | Some cs \<Rightarrow> Inr (join '' '' cs)))"

text \<open>Line 295: \<open>str(product_data.get("attributes", {}))\<close>.\<close>

definition attributes_text :: "product \<Rightarrow> string" where
  "attributes_text product_data =
     (case attributes product_data of
        Absent \<Rightarrow> ''{}''
      | Null \<Rightarrow> ''None''
      | Present s \<Rightarrow> s)"

text \<open>The list \<open>search_fields\<close> of lines 291-296.\<close>

definition search_fields :: "product \<Rightarrow> error + string option list" where
  "search_fields product_data =
     (case detail_contents product_data of
        Inl e \<Rightarrow> Inl e
      | Inr joined \<Rightarrow>
          Inr [dict_get_or (name product_data) [], Some joined,
               dict_get_or (description product_data) [],
               Some (attributes_text product_data)])"

text \<open>The loop of lines 299-304; \<open>match.group(1)\<close> and \<open>match.group(2)\<close> raise
  \<open>IndexError\<close> for a match without two groups.\<close>

fun size_loop :: "string option list \<Rightarrow> error + string" where
  "size_loop [] = Inr NA"
| "size_loop (field_content # rest) =
     (if falsy field_content then size_loop rest
      else case search_text_for_patterns (the field_content) size_patterns of
             None \<Rightarrow> size_loop rest
           | Some m \<Rightarrow>
               (case m of g1 # g2 # _ \<Rightarrow> Inr (g1 @ g2) | _ \<Rightarrow> Inl IndexError))"

text \<open>\<open>extract_size_volume(product_data)\<close>, lines 262-307.\<close>

definition extract_size_volume :: "product \<Rightarrow> error + string" where
  "extract_size_volume product_data =
     (if product_data = empty_product then Inr NA
      else case search_fields product_data of
             Inl e \<Rightarrow> Inl e
           | Inr sources \<Rightarrow> size_loop sources)"

section \<open>LineNameInferrer: \<open>extract_product_line_name\<close>\<close>

definition line_keywords :: "string list" where
  "line_keywords = [''line'', ''collection'', ''series'', ''range'']"

definition generic_terms :: "string list" where
  "generic_terms = [''cream'', ''lotion'', ''serum'', ''oil'', ''gel'', ''cleanser'',
                    ''moisturiser'', ''spf'', ''wash'']"

text \<open>Strategy 1, the loop of lines 324-331. \<open>Some\<close> is the line name returned from
  inside the loop, \<open>None\<close> the end of the loop without a return. \<open>None.lower()\<close> raises
  \<open>AttributeError\<close>.\<close>

fun line_from_details :: "detail list \<Rightarrow> error + string option" where
  "line_from_details [] = Inr None"
| "line_from_details (d # rest) =
     (case dict_get_or (content_label d) [] of
        None \<Rightarrow> Inl AttributeError
      | Some l \<Rightarrow>
          if list_ex (\<lambda>keyword. contains (lower l) keyword) line_keywords
          then (let line_name = clean_text (dict_get_or (content d) [])
                in if line_name = [] then line_from_details rest
                   else if length line_name < 100 then Inr (Some line_name)
                   else line_from_details rest)
          else line_from_details rest)"

text \<open>Line 350: \<open>part and part[0].isupper() and len(part) > 2\<close>.\<close>

definition qualifies :: "string \<Rightarrow> bool" where
  "qualifies part = (case part of [] \<Rightarrow> False | c # _ \<Rightarrow> is_upper c \<and> 2 < length part)"

text \<open>The loop of lines 348-353 with its \<open>break\<close>.\<close>

fun collect_words :: "string list \<Rightarrow> string list \<Rightarrow> string list" where
  "collect_words [] potential_line_words = potential_line_words"
| "collect_words (part # rest) potential_line_words =
     (if qualifies part then collect_words rest (potential_line_words @ [part])
      else potential_line_words)"

text \<open>Lines 340-366, entered when the brand name is in the product name.\<close>

definition line_from_name :: "string \<Rightarrow> string \<Rightarrow> string" where
  "line_from_name product_name brand_nm =
     (let remaining_name = strip (remove_all brand_nm product_name);
          name_parts = split_ws remaining_name
      in if 1 < length name_parts
         then (let potential_line_words = collect_words (take 3 name_parts) []
               in if potential_line_words = [] then NA
                  else (let line_name = join '' '' potential_line_words
                        in if list_ex (\<lambda>term. contains (lower line_name) term) generic_terms
                           then NA else line_name))
         else NA)"

text \<open>Line 335: \<open>product_data.get("brand", {}).get("brand_name", dflt)\<close>; \<open>None.get\<close>
  raises \<open>AttributeError\<close>.\<close>

definition get_brand_name :: "product \<Rightarrow> string \<Rightarrow> error + string option" where
  "get_brand_name product_data dflt =
     (case brand product_data of
        Absent \<Rightarrow> Inr (Some dflt)
      | Null \<Rightarrow> Inl AttributeError
      | Present b \<Rightarrow> Inr (dict_get_or (brand_name b) dflt))"

text \<open>Strategy 2, lines 334-366. \<open>brand_name in None\<close> raises \<open>TypeError\<close>.\<close>

definition strategy2 :: "product \<Rightarrow> error + string" where
  "strategy2 product_data =
     (let product_name = dict_get_or (name product_data) []
      in case get_brand_name product_data [] of
           Inl e \<Rightarrow> Inl e
         | Inr bn \<Rightarrow>
             if falsy bn then Inr NA
             else (case product_name of
                     None \<Rightarrow> Inl TypeError
                   | Some pn \<Rightarrow>
                       if contains pn (the bn) then Inr (line_from_name pn (the bn))
                       else Inr NA))"

text \<open>\<open>extract_product_line_name(product_data)\<close>, lines 309-366.\<close>

definition extract_product_line_name :: "product \<Rightarrow> error + string" where
  "extract_product_line_name product_data =
     (case dict_get_or (details product_data) [] of
        None \<Rightarrow> Inl TypeError
      | Some ds \<Rightarrow>
          (case line_from_details ds of
             Inl e \<Rightarrow> Inl e
           | Inr (Some line_name) \<Rightarrow> Inr line_name
           | Inr None \<Rightarrow> strategy2 product_data))"

section \<open>CompletenessGate: \<open>validate_completeness\<close>\<close>

text \<open>A row is a Python dictionary from column names to values that are \<open>None\<close> or
  strings. \<open>row.get(field)\<close> is \<open>None\<close> for a missing column.\<close>

type_synonym row = "string \<rightharpoonup> string option"

definition row_get :: "row \<Rightarrow> string \<Rightarrow> string option" where
  "row_get r k = (case r k of None \<Rightarrow> None | Some v \<Rightarrow> v)"

definition required_fields :: "string list" where
  "required_fields =
     [''Product ID'', ''Product Name'', ''Brand Name'', ''Product Description'',
      ''Product Images'', ''Barcode (EAN/UPC)'', ''Price'', ''Size/Volume'',
      ''Ingredients'', ''Skin Concern'', ''Source URL'']"

text \<open>The test of line 455.\<close>

definition field_missing :: "row \<Rightarrow> string \<Rightarrow> bool" where
  "field_missing r f = (row_get r f = Some NA \<or> falsy (row_get r f))"

fun check_fields :: "row \<Rightarrow> string list \<Rightarrow> bool \<times> string option" where
  "check_fields r [] = (True, None)"
| "check_fields r (f # fs) =
     (if field_missing r f then (False, Some f) else check_fields r fs)"

definition validate_completeness :: "row \<Rightarrow> bool \<times> string option" where
  "validate_completeness r = check_fields r required_fields"

section \<open>RecordNormalizer: the row built by \<open>scrape_products\<close>\<close>

definition BASE :: string where
  "BASE = ''https://terrywhitechemmart.com.au''"

text \<open>An f-string field and \<open>str()\<close> of a value that is \<open>None\<close> or a string.\<close>

definition py_str :: "string option \<Rightarrow> string" where
  "py_str v = (case v of None \<Rightarrow> ''None'' | Some s \<Rightarrow> s)"

text \<open>Line 506: \<open>list(prod.get("images", {}).values())\<close>.\<close>

definition image_values :: "product \<Rightarrow> error + string option list" where
  "image_values prd =
     (case images prd of
        Absent \<Rightarrow> Inr []
      | Null \<Rightarrow> Inl AttributeError
      | Present kvs \<Rightarrow> Inr (map snd kvs))"

text \<open>Line 524: \<open>"|".join(image_urls) if image_urls else "N/A"\<close>; joining a \<open>None\<close>
  raises \<open>TypeError\<close>.\<close>

definition images_text :: "string option list \<Rightarrow> error + string" where
  "images_text image_urls =
     (if image_urls = [] then Inr NA
      else case those image_urls of
             None \<Rightarrow> Inl TypeError
           | Some urls \<Rightarrow> Inr (join ''|'' urls))"

text \<open>Lines 505-531 of \<open>scrape_products\<close>: the row for the product fetched for \<open>slug\<close>,
  in the order in which the code evaluates it.\<close>

definition normalize :: "string \<Rightarrow> product \<Rightarrow> error + row" where
  "normalize slug prd =
     (case get_brand_name prd NA of
        Inl e \<Rightarrow> Inl e
      | Inr brand_nm \<Rightarrow>
     (case image_values prd of
        Inl e \<Rightarrow> Inl e
      | Inr image_urls \<Rightarrow>
     (let general_info = extract_detail (dict_get (details prd)) ''General Information'';
          ingredients = extract_detail (dict_get (details prd)) ''Ingredients'';
          cleaned_ingredients = clean_ingredients (Some ingredients);
          combined_text = general_info @ '' '' @ py_str (dict_get_or (name prd) []);
          skin_concerns = get_skin_concerns (Some combined_text)
      in
     (case extract_size_volume prd of
        Inl e \<Rightarrow> Inl e
      | Inr size_volume \<Rightarrow>
     (case extract_product_line_name prd of
        Inl e \<Rightarrow> Inl e
      | Inr product_line_name \<Rightarrow>
     (case images_text image_urls of
        Inl e \<Rightarrow> Inl e
      | Inr imgs \<Rightarrow>
          Inr (map_of
            [(''Product ID'', dict_get_or (product_id prd) NA),
             (''Product Name'', dict_get_or (name prd) NA),
             (''Product Line Name'', Some product_line_name),
             (''Brand Name'', brand_nm),
             (''Product Description'', Some (if general_info = [] then NA else general_info)),
             (''Product Images'', Some imgs),
             (''Barcode (EAN/UPC)'', dict_get_or (upc prd) NA),
             (''Price'', Some (py_str (dict_get_or (price prd) NA))),
             (''Size/Volume'', Some size_volume),
             (''Ingredients'',
                (if falsy cleaned_ingredients then Some NA else cleaned_ingredients)),
             (''Skin Concern'',
                Some (if skin_concerns = [] then NA else join '', '' skin_concerns)),
             (''Source URL'', Some (BASE @ ''/shop/product/'' @ slug))])))))))"

section \<open>Notions used in the statements about the size extractor\<close>

text \<open>A pattern without a group.\<close>

fun no_groups :: "regex \<Rightarrow> bool" where
  "no_groups (Group r) = False"
| "no_groups (Opt r) = no_groups r"
| "no_groups (Seq r1 r2) = (no_groups r1 \<and> no_groups r2)"
| "no_groups (Alt r1 r2) = (no_groups r1 \<and> no_groups r2)"
| "no_groups r = True"

text \<open>The sources that the loop of \<open>extract_size_volume\<close> searches: those that are
  neither \<open>None\<close> nor empty.\<close>

definition truthy_texts :: "string option list \<Rightarrow> string list" where
  "truthy_texts srcs = concat (map (\<lambda>v. if falsy v then [] else [the v]) srcs)"

text \<open>The first pair of a source and a size pattern, going through all patterns for a
  source before the next source, for which \<open>re.search\<close> finds a match.\<close>

definition first_combination :: "string option list \<Rightarrow> (string \<times> regex) option" where
  "first_combination srcs =
     find (\<lambda>(s, pat). re_search True pat s \<noteq> None) (List.product (truthy_texts srcs) size_patterns)"

section \<open>Notions used in the statements about the line name and the size\<close>

text \<open>
  Strategy 2 as the specification words it (section 4.5): the brand is removed from the
  name, the rest is split on whitespace, the qualifying tokens at the start of the first
  three are joined, and a candidate with a generic term is rejected. The specification
  has no condition on the number of tokens.
\<close>

definition claimed_line_from_name :: "string \<Rightarrow> string \<Rightarrow> string" where
  "claimed_line_from_name product_name brand_nm =
     (let tokens = split_ws (remove_all brand_nm product_name);
          candidate = takeWhile qualifies (take 3 tokens)
      in if candidate = [] then NA
         else if list_ex (\<lambda>term. contains (lower (join '' '' candidate)) term) generic_terms
         then NA
         else join '' '' candidate)"

text \<open>The value of a key that is not null, with the fallback for an absent key.\<close>

fun field_or :: "string field \<Rightarrow> string \<Rightarrow> string" where
  "field_or (Present v) dflt = v"
| "field_or other dflt = dflt"

section \<open>Notions used in the statements about the formatter\<close>

text \<open>
  The period step as the specification words it (section 4.2, step 2): every period that
  is not immediately followed by a digit becomes a comma, every other character stays.
\<close>

definition digit_next :: "string \<Rightarrow> bool" where
  "digit_next cs = (case cs of [] \<Rightarrow> False | d # _ \<Rightarrow> is_digit d)"

fun periods_to_commas :: "string \<Rightarrow> string" where
  "periods_to_commas [] = []"
| "periods_to_commas (c # cs) =
     (if c = CHR ''.'' \<and> \<not> digit_next cs then CHR '','' else c) # periods_to_commas cs"

section \<open>Sample records\<close>

text \<open>A row with every column populated but the product line.\<close>

definition full_row :: row where
  "full_row = map_of
     [(''Product ID'', Some ''1001''), (''Product Name'', Some ''Acme Day Cream 50ml''),
      (''Product Line Name'', Some ''N/A''), (''Brand Name'', Some ''Acme''),
      (''Product Description'', Some ''A day cream''), (''Product Images'', Some ''a.png''),
      (''Barcode (EAN/UPC)'', Some ''9300000000001''), (''Price'', Some ''9.99''),
      (''Size/Volume'', Some ''50ml''), (''Ingredients'', Some ''Aqua''),
      (''Skin Concern'', Some ''dry skin''), (''Source URL'', Some ''https://x/y'')]"

text \<open>Details with a label in another case and a label that occurs twice.\<close>

definition sample_details :: "detail list" where
  "sample_details =
     [\<lparr>content_label = Present ''ingredients'', content = Present ''lower case label''\<rparr>,
      \<lparr>content_label = Present ''Ingredients'', content = Present ''Aqua,  Glycerin''\<rparr>,
      \<lparr>content_label = Present ''Ingredients'', content = Present ''Parfum''\<rparr>]"

text \<open>Details whose first \<open>Ingredients\<close> entry holds markup only.\<close>

definition markup_details :: "detail list" where
  "markup_details =
     [\<lparr>content_label = Present ''General Information'', content = Present ''A cream''\<rparr>,
      \<lparr>content_label = Present ''Ingredients'', content = Present ''<p> <br/></p>''\<rparr>,
      \<lparr>content_label = Present ''Ingredients'', content = Present ''Aqua''\<rparr>]"

text \<open>Products for the size extractor: a size in the name; a count in the name and a
  volume in a detail; no size anywhere.\<close>

definition cream_50ml :: product where
  "cream_50ml = empty_product\<lparr>name := Present ''Moisturizing Cream 50ml''\<rparr>"

definition soap_pieces :: product where
  "soap_pieces = empty_product
     \<lparr>name := Present ''Soap 5 Pieces'',
      details := Present [\<lparr>content_label = Present ''General Information'',
                           content = Present ''Net 50 ml each''\<rparr>]\<rparr>"

definition plain_cream :: product where
  "plain_cream = empty_product\<lparr>name := Present ''Plain Cream''\<rparr>"

text \<open>Products with no size in the name: a volume in the second detail, the first detail
  without content; a weight in the description; a volume in the attributes.\<close>

definition jar_details :: product where
  "jar_details = empty_product
     \<lparr>name := Present ''Plain Cream'',
      details := Present [\<lparr>content_label = Present ''General Information'', content = Absent\<rparr>,
                          \<lparr>content_label = Present ''Size'', content = Present ''Net 50 ml each''\<rparr>]\<rparr>"

definition jar_description :: product where
  "jar_description = empty_product\<lparr>description := Present ''A tube of 75 g''\<rparr>"

definition jar_attributes :: product where
  "jar_attributes = empty_product
     \<lparr>name := Present ''Plain Cream'', attributes := Present ''{'size': '200 mL'}''\<rparr>"

text \<open>Products for the line name: one token after the brand; three qualifying tokens; a
  generic term in the candidate.\<close>

definition nivea_sun :: product where
  "nivea_sun = empty_product
     \<lparr>name := Present ''Nivea Sun'', brand := Present \<lparr>brand_name = Present ''Nivea''\<rparr>\<rparr>"

definition nivea_sun_kids :: product where
  "nivea_sun_kids = empty_product
     \<lparr>name := Present ''Nivea Sun Protect Kids 200ml'',
      brand := Present \<lparr>brand_name = Present ''Nivea''\<rparr>,
      details := Present [\<lparr>content_label = Present ''Ingredients'',
                           content = Present ''Aqua''\<rparr>]\<rparr>"

definition nivea_daily :: product where
  "nivea_daily = empty_product
     \<lparr>name := Present ''Nivea Daily Moisturiser 200ml'',
      brand := Present \<lparr>brand_name = Present ''Nivea''\<rparr>\<rparr>"

text \<open>Products with a key that holds \<open>null\<close>.\<close>

definition null_details :: product where
  "null_details = empty_product\<lparr>name := Present ''Day Cream 50ml'', details := Null\<rparr>"

definition null_brand :: product where
  "null_brand = empty_product\<lparr>name := Present ''Day Cream 50ml'', brand := Null\<rparr>"

definition null_content :: product where
  "null_content = empty_product
     \<lparr>name := Present ''Day Cream 50ml'',
      details := Present [\<lparr>content_label = Present ''Ingredients'', content = Null\<rparr>]\<rparr>"

text \<open>A product with every key the row needs.\<close>

definition day_cream :: product where
  "day_cream =
     \<lparr>product_id = Present ''1001'', name = Present ''Acme Day Cream 50ml'',
      brand = Present \<lparr>brand_name = Present ''Acme''\<rparr>,
      details = Present
        [\<lparr>content_label = Present ''General Information'',
          content = Present ''<p>A gentle day cream.</p>''\<rparr>,
         \<lparr>content_label = Present ''Ingredients'', content = Present ''AQUA, GLYCERIN.''\<rparr>],
      description = Absent, attributes = Absent,
      images = Present [(''main'', Some ''a.png''), (''side'', Some ''b.png'')],
      upc = Present ''9300000000001'', price = Present ''9.99''\<rparr>"

section \<open>Properties of the completeness gate\<close>

lemma check_fields_find:
  "check_fields r fs =
     (case find (field_missing r) fs of None \<Rightarrow> (True, None) | Some f \<Rightarrow> (False, Some f))"
  by (induction fs) auto

lemma field_missing_upd:
  "k \<noteq> f \<Longrightarrow> field_missing (r(k := v)) f = field_missing r f"
  by (simp add: field_missing_def row_get_def)

lemma check_fields_upd:
  "k \<notin> set fs \<Longrightarrow> check_fields (r(k := v)) fs = check_fields r fs"
  by (induction fs) (auto simp: field_missing_upd)

lemma product_line_not_required: "''Product Line Name'' \<notin> set required_fields"
  by (simp add: required_fields_def)

text \<open>
  C7: for every row, \<open>validate_completeness\<close> returns \<open>False\<close> with the first field of
  \<open>required_fields\<close>, in the declared order, whose value is \<open>"N/A"\<close> or falsy (\<open>None\<close>, a
  missing column or the empty string), and \<open>(True, None)\<close> when there is none. The product
  line is not among the required fields, so its value never changes the result.
\<close>

theorem validate_completeness_first_missing:
  "validate_completeness r =
     (case find (field_missing r) required_fields of
        None \<Rightarrow> (True, None)
      | Some f \<Rightarrow> (False, Some f))
   \<and> ''Product Line Name'' \<notin> set required_fields
   \<and> validate_completeness (r(''Product Line Name'' := v)) = validate_completeness r"
  unfolding validate_completeness_def
  using check_fields_find [of r required_fields] product_line_not_required
    check_fields_upd [OF product_line_not_required, of r v]
  by simp

text \<open>At concrete rows: a row whose only sentinel is the product line is accepted, also
  when the product line column is removed; with the barcode set to \<open>"N/A"\<close>, or to \<open>None\<close>
  while the later price is empty too, the barcode is the field reported.\<close>

theorem validate_completeness_first_missing_witness:
  "validate_completeness full_row = (True, None)
   \<and> validate_completeness (full_row(''Barcode (EAN/UPC)'' \<mapsto> Some ''N/A'')) =
       (False, Some ''Barcode (EAN/UPC)'')
   \<and> validate_completeness (full_row(''Barcode (EAN/UPC)'' \<mapsto> None, ''Price'' \<mapsto> Some [])) =
       (False, Some ''Barcode (EAN/UPC)'')
   \<and> validate_completeness (full_row(''Product Line Name'' := None)) = (True, None)"
proof -
  have a: "validate_completeness full_row = (True, None)"
    using validate_completeness_first_missing [of full_row]
    by (simp add: full_row_def required_fields_def field_missing_def row_get_def NA_def)
  have b: "validate_completeness (full_row(''Barcode (EAN/UPC)'' \<mapsto> Some ''N/A'')) =
       (False, Some ''Barcode (EAN/UPC)'')"
    using validate_completeness_first_missing
      [of "full_row(''Barcode (EAN/UPC)'' \<mapsto> Some ''N/A'')"]
    by (simp add: full_row_def required_fields_def field_missing_def row_get_def NA_def)
  have c: "validate_completeness
             (full_row(''Barcode (EAN/UPC)'' \<mapsto> None, ''Price'' \<mapsto> Some [])) =
       (False, Some ''Barcode (EAN/UPC)'')"
    using validate_completeness_first_missing
      [of "full_row(''Barcode (EAN/UPC)'' \<mapsto> None, ''Price'' \<mapsto> Some [])"]
    by (simp add: full_row_def required_fields_def field_missing_def row_get_def NA_def)
  have d: "validate_completeness (full_row(''Product Line Name'' := None)) = (True, None)"
    using validate_completeness_first_missing [of full_row None] a by simp
  from a b c d show ?thesis by simp
qed

section \<open>Properties of the field extractor\<close>

lemma find_detail_no_match:
  "list_all (\<lambda>d. dict_get (content_label d) \<noteq> Some label) ds \<Longrightarrow> find_detail ds label = []"
  by (induction ds) auto

lemma find_detail_append:
  "list_all (\<lambda>d. dict_get (content_label d) \<noteq> Some label) pre \<Longrightarrow>
   find_detail (pre @ rest) label = find_detail rest label"
  by (induction pre) auto

text \<open>
  C9: \<open>extract_detail\<close> returns the empty string when the details are \<open>None\<close> or empty
  or no detail carries the label, and otherwise the sanitized content of the first detail
  whose label equals the target exactly, whatever details follow it.
\<close>

theorem extract_detail_first_match:
  "extract_detail None label = []
   \<and> extract_detail (Some []) label = []
   \<and> (list_all (\<lambda>d. dict_get (content_label d) \<noteq> Some label) ds
        \<longrightarrow> extract_detail (Some ds) label = [])
   \<and> (list_all (\<lambda>d. dict_get (content_label d) \<noteq> Some label) pre
        \<and> dict_get (content_label d) = Some label
        \<longrightarrow> extract_detail (Some (pre @ d # post)) label = clean_text (dict_get (content d)))"
  by (auto simp: extract_detail_def find_detail_no_match find_detail_append)

text \<open>At \<open>sample_details\<close>: the label in lower case is passed over, the first of the two
  details labelled \<open>Ingredients\<close> is returned, and a label that does not occur gives the
  empty string.\<close>

theorem extract_detail_first_match_witness:
  "extract_detail (Some sample_details) ''Ingredients'' = ''Aqua, Glycerin''
   \<and> extract_detail (Some sample_details) ''Directions'' = []"
proof -
  have "extract_detail (Some sample_details) ''Ingredients'' =
        clean_text (Some ''Aqua,  Glycerin'')"
    using extract_detail_first_match
      [of "''Ingredients''" "[]"
          "[\<lparr>content_label = Present ''ingredients'', content = Present ''lower case label''\<rparr>]"
          "\<lparr>content_label = Present ''Ingredients'', content = Present ''Aqua,  Glycerin''\<rparr>"
          "[\<lparr>content_label = Present ''Ingredients'', content = Present ''Parfum''\<rparr>]"]
    by (simp add: sample_details_def)
  moreover have "clean_text (Some ''Aqua,  Glycerin'') = ''Aqua, Glycerin''"
    by code_simp
  moreover have "extract_detail (Some sample_details) ''Directions'' = []"
    using extract_detail_first_match [of "''Directions''" sample_details]
    by (simp add: sample_details_def)
  ultimately show ?thesis by simp
qed

text \<open>
  C10: when the first detail whose label equals the target has no content, a \<open>null\<close>
  content or a content that \<open>clean_text\<close> reduces to nothing, \<open>extract_detail\<close>
  returns the empty string, which is also what it returns for the details before that
  one, where no label matches; the details after it are not looked at.
\<close>

theorem extract_detail_empty_content:
  "list_all (\<lambda>d. dict_get (content_label d) \<noteq> Some label) pre \<Longrightarrow>
   dict_get (content_label d) = Some label \<Longrightarrow>
   content d = Absent \<or> content d = Null \<or> clean_text (dict_get (content d)) = [] \<Longrightarrow>
   extract_detail (Some (pre @ d # post)) label = []
   \<and> extract_detail (Some (pre @ d # post)) label = extract_detail (Some pre) label"
  by (auto simp: extract_detail_def find_detail_no_match find_detail_append clean_text_def)

text \<open>At \<open>markup_details\<close>, whose first \<open>Ingredients\<close> entry is markup only and whose
  second holds a text, and at a first entry with a \<open>null\<close> content.\<close>

theorem extract_detail_empty_content_witness:
  "extract_detail (Some markup_details) ''Ingredients'' = []
   \<and> extract_detail (Some [\<lparr>content_label = Present ''Ingredients'', content = Null\<rparr>,
        \<lparr>content_label = Present ''Ingredients'', content = Present ''Aqua''\<rparr>]) ''Ingredients'' = []"
proof -
  have e: "clean_text (Some ''<p> <br/></p>'') = []" by code_simp
  have "extract_detail (Some markup_details) ''Ingredients'' = []"
    using extract_detail_empty_content
      [of "''Ingredients''"
          "[\<lparr>content_label = Present ''General Information'', content = Present ''A cream''\<rparr>]"
          "\<lparr>content_label = Present ''Ingredients'', content = Present ''<p> <br/></p>''\<rparr>"
          "[\<lparr>content_label = Present ''Ingredients'', content = Present ''Aqua''\<rparr>]"] e
    by (simp add: markup_details_def)
  moreover have "extract_detail (Some [\<lparr>content_label = Present ''Ingredients'', content = Null\<rparr>,
        \<lparr>content_label = Present ''Ingredients'', content = Present ''Aqua''\<rparr>]) ''Ingredients'' = []"
    using extract_detail_empty_content
      [of "''Ingredients''" "[]"
          "\<lparr>content_label = Present ''Ingredients'', content = Null\<rparr>"
          "[\<lparr>content_label = Present ''Ingredients'', content = Present ''Aqua''\<rparr>]"]
    by simp
  ultimately show ?thesis by simp
qed

section \<open>Properties of the concern classifier\<close>

lemma try_patterns_eq:
  "try_patterns txt c ps acc =
     (if list_ex (\<lambda>p. re_search False p txt \<noteq> None) ps \<and> c \<notin> set acc then acc @ [c] else acc)"
  by (induction ps) (auto split: option.splits)

lemma scan_concerns_eq:
  "distinct (map fst cps) \<Longrightarrow> set acc \<inter> fst ` set cps = {} \<Longrightarrow>
   scan_concerns txt cps acc =
     acc @ map fst (filter (\<lambda>(c, ps). list_ex (\<lambda>p. re_search False p txt \<noteq> None) ps) cps)"
proof (induction cps arbitrary: acc)
  case Nil
  then show ?case by simp
next
  case (Cons a cps)
  obtain c ps where a: "a = (c, ps)" by (cases a)
  from Cons.prems a have c: "c \<notin> set acc" "c \<notin> fst ` set cps" "distinct (map fst cps)"
    and d: "set acc \<inter> fst ` set cps = {}" by auto
  show ?case
  proof (cases "list_ex (\<lambda>p. re_search False p txt \<noteq> None) ps")
    case True
    have "set (acc @ [c]) \<inter> fst ` set cps = {}" using c d by auto
    from Cons.IH [OF c(3) this] True c show ?thesis
      by (simp add: a try_patterns_eq)
  next
    case False
    from Cons.IH [OF c(3) d] False show ?thesis
      by (simp add: a try_patterns_eq)
  qed
qed

lemma concern_names_distinct: "distinct (map fst concern_patterns)"
  by (simp add: concern_patterns_def)

lemma no_concern_in_empty_text:
  "filter (\<lambda>(c, ps). list_ex (\<lambda>p. re_search False p [] \<noteq> None) ps) concern_patterns = []"
  by code_simp

text \<open>
  C8: for every text, \<open>get_skin_concerns\<close> returns the categories of
  \<open>concern_patterns\<close>, in the order of that table, of which at least one pattern is found
  by \<open>re.search\<close> in the lowercased text, and no others; no category occurs twice. The
  order of the table is the one the claim lists.
\<close>

theorem get_skin_concerns_categories:
  "get_skin_concerns (Some t) =
     map fst (filter (\<lambda>(c, ps). list_ex (\<lambda>p. re_search False p (lower t) \<noteq> None) ps)
                concern_patterns)
   \<and> distinct (get_skin_concerns (Some t))
   \<and> map fst concern_patterns =
       [''acne'', ''dry skin'', ''oily skin'', ''sensitive skin'', ''anti-aging'',
        ''hyperpigmentation'', ''sun protection'', ''rosacea'', ''eczema'', ''mature skin'',
        ''dullness'']"
proof -
  have eq: "get_skin_concerns (Some t) =
     map fst (filter (\<lambda>(c, ps). list_ex (\<lambda>p. re_search False p (lower t) \<noteq> None) ps)
                concern_patterns)"
  proof (cases "t = []")
    case True
    then show ?thesis
      using no_concern_in_empty_text by (simp add: get_skin_concerns_def lower_def)
  next
    case False
    then show ?thesis
      using scan_concerns_eq [OF concern_names_distinct, of "[]" "lower t"]
      by (simp add: get_skin_concerns_def)
  qed
  have "distinct (map fst (filter (\<lambda>(c, ps). list_ex (\<lambda>p. re_search False p (lower t) \<noteq> None) ps)
                concern_patterns))"
    using concern_names_distinct by (rule distinct_map_filter)
  with eq have "distinct (get_skin_concerns (Some t))" by simp
  moreover have "map fst concern_patterns =
       [''acne'', ''dry skin'', ''oily skin'', ''sensitive skin'', ''anti-aging'',
        ''hyperpigmentation'', ''sun protection'', ''rosacea'', ''eczema'', ''mature skin'',
        ''dullness'']"
    by (simp add: concern_patterns_def)
  ultimately show ?thesis using eq by simp
qed

text \<open>At two texts: the category is listed once though three of its patterns match, and
  the categories come in table order though the text mentions them in another order.\<close>

theorem get_skin_concerns_categories_witness:
  "get_skin_concerns (Some ''gentle soothing formula for sensitive skin'') = [''sensitive skin'']
   \<and> get_skin_concerns (Some ''Glow SPF with anti-aging for Acne'') =
       [''acne'', ''anti-aging'', ''sun protection'', ''dullness'']"
proof -
  have a: "map fst (filter (\<lambda>(c, ps). list_ex (\<lambda>p. re_search False p
             (lower ''gentle soothing formula for sensitive skin'') \<noteq> None) ps)
             concern_patterns) = [''sensitive skin'']"
    by code_simp
  have b: "map fst (filter (\<lambda>(c, ps). list_ex (\<lambda>p. re_search False p
             (lower ''Glow SPF with anti-aging for Acne'') \<noteq> None) ps)
             concern_patterns) = [''acne'', ''anti-aging'', ''sun protection'', ''dullness'']"
    by code_simp
  from get_skin_concerns_categories [of "''gentle soothing formula for sensitive skin''"]
       get_skin_concerns_categories [of "''Glow SPF with anti-aging for Acne''"] a b
  show ?thesis by simp
qed

section \<open>Properties of the regular expression matcher\<close>

lemma str_ends_suffix:
  "q \<in> set (str_ends ic w p) \<Longrightarrow> \<exists>u. snd p = u @ snd q"
proof (induction ic w p rule: str_ends.induct)
  case (3 ic a w prev c cs)
  then have "cmatch ic (Ch a) c" and "q \<in> set (str_ends ic w (Some c, cs))"
    by (auto split: if_splits)
  with 3 obtain u where "cs = u @ snd q" by auto
  then have "c # cs = (c # u) @ snd q" by simp
  then show ?case by (metis snd_conv)
qed auto

lemma star_ends_suffix:
  "q \<in> set (star_ends ic k p) \<Longrightarrow> \<exists>u. snd p = u @ snd q \<and> list_all (cmatch ic k) u"
proof (induction ic k p rule: star_ends.induct)
  case (2 ic k prev c cs)
  show ?case
  proof (cases "q = (prev, c # cs)")
    case True
    then show ?thesis by simp
  next
    case False
    with 2 obtain u where "cs = u @ snd q" "list_all (cmatch ic k) u" "cmatch ic k c"
      by (auto split: if_splits)
    then have "c # cs = (c # u) @ snd q \<and> list_all (cmatch ic k) (c # u)" by simp
    then show ?thesis by (metis snd_conv)
  qed
qed auto

lemma ends_suffix:
  "(g, q) \<in> set (ends ic r p) \<Longrightarrow> \<exists>u. snd p = u @ snd q"
proof (induction r arbitrary: g q p)
  case (Atom k)
  then show ?case by (cases p) (auto split: list.splits if_splits)
next
  case (Str w)
  then have "q \<in> set (str_ends ic w p)" by auto
  then show ?case by (rule str_ends_suffix)
next
  case (Star k)
  then have "q \<in> set (star_ends ic k p)" by auto
  from star_ends_suffix [OF this] show ?case by blast
next
  case (Plus k)
  then obtain prev c cs where p: "p = (prev, c # cs)" "cmatch ic k c"
    and "q \<in> set (star_ends ic k (Some c, cs))"
    by (cases p) (auto split: list.splits if_splits)
  from star_ends_suffix [OF this(3)] obtain u where "cs = u @ snd q" by auto
  then have "c # cs = (c # u) @ snd q" by simp
  with p show ?case by (metis snd_conv)
next
  case (Opt r)
  then have "(g, q) \<in> set (ends ic r p) \<or> q = p" by auto
  then show ?case
  proof
    assume "(g, q) \<in> set (ends ic r p)"
    then show ?thesis by (rule Opt.IH)
  next
    assume "q = p"
    then show ?thesis by simp
  qed
next
  case (Seq r1 r2)
  then obtain g1 p1 g2 where a: "(g1, p1) \<in> set (ends ic r1 p)" "(g2, q) \<in> set (ends ic r2 p1)"
    by auto
  from Seq.IH(1) [OF a(1)] obtain u where u: "snd p = u @ snd p1" by blast
  from Seq.IH(2) [OF a(2)] obtain v where v: "snd p1 = v @ snd q" by blast
  from u v have "snd p = (u @ v) @ snd q" by simp
  then show ?case by blast
next
  case (Alt r1 r2)
  then have "(g, q) \<in> set (ends ic r1 p) \<or> (g, q) \<in> set (ends ic r2 p)" by auto
  then show ?case using Alt.IH by blast
next
  case (Group r)
  then obtain g0 where "(g0, q) \<in> set (ends ic r p)" by auto
  then show ?case by (rule Group.IH)
next
  case WordB
  then have "q = p" by (auto split: if_splits)
  then show ?case by simp
next
  case (NotAhead k)
  then have "q = p" by (auto split: list.splits if_splits)
  then show ?case by simp
qed

lemma ends_no_groups:
  "no_groups r \<Longrightarrow> (g, q) \<in> set (ends ic r p) \<Longrightarrow> g = []"
proof (induction r arbitrary: g q p)
  case (Seq r1 r2)
  then obtain g1 p1 g2 where a: "(g1, p1) \<in> set (ends ic r1 p)" "(g2, q) \<in> set (ends ic r2 p1)"
    and g: "g = g1 @ g2" by auto
  from Seq.prems(1) have n: "no_groups r1" "no_groups r2" by simp_all
  from Seq.IH(1) [OF n(1) a(1)] Seq.IH(2) [OF n(2) a(2)] g show ?case by simp
next
  case (Alt r1 r2)
  from Alt.prems(2) have "(g, q) \<in> set (ends ic r1 p) \<or> (g, q) \<in> set (ends ic r2 p)" by simp
  moreover from Alt.prems(1) have "no_groups r1" "no_groups r2" by simp_all
  ultimately show ?case using Alt.IH by blast
next
  case (Opt r)
  from Opt.prems(2) have "(g, q) \<in> set (ends ic r p) \<or> g = []" by auto
  moreover from Opt.prems(1) have "no_groups r" by simp
  ultimately show ?case using Opt.IH by blast
next
  case (Atom k)
  from Atom(2) show ?case by (cases "snd p") (auto split: if_splits)
next
  case (Plus k)
  from Plus(2) show ?case by (cases "snd p") (auto split: if_splits)
next
  case (NotAhead k)
  from NotAhead(2) show ?case by (cases "snd p") (auto split: if_splits)
next
  case WordB
  from WordB(2) show ?case by (auto split: if_splits)
next
  case (Str w)
  from Str(2) show ?case by auto
next
  case (Star k)
  from Star(2) show ?case by auto
next
  case (Group r)
  from Group.prems(1) show ?case by simp
qed

lemma ends_group:
  assumes "no_groups r" "(g, q) \<in> set (ends ic (Group r) p)"
  shows "\<exists>u. g = [u] \<and> snd p = u @ snd q"
proof -
  from assms(2) obtain g0 where g0: "(g0, q) \<in> set (ends ic r p)"
    and g: "g = g0 @ [take (length (snd p) - length (snd q)) (snd p)]" by auto
  from ends_no_groups [OF assms(1) g0] have "g0 = []" .
  moreover from ends_suffix [OF g0] obtain u where "snd p = u @ snd q" by blast
  ultimately show ?thesis using g by simp
qed

lemma ends_Seq_elim:
  assumes "(g, q) \<in> set (ends ic (Seq r1 r2) p)"
  obtains g1 p1 g2 where "(g1, p1) \<in> set (ends ic r1 p)" "(g2, q) \<in> set (ends ic r2 p1)"
    "g = g1 @ g2"
  using assms by auto

lemma ends_size_pat:
  assumes ng: "no_groups n" "no_groups u"
    and "(g, q) \<in> set (ends ic (Seq (Group n) (Seq (Star Space) (Group u))) p)"
  shows "\<exists>g1 gap g2. g = [g1, g2] \<and> snd p = g1 @ gap @ g2 @ snd q \<and> list_all is_space gap"
proof -
  from assms(3) obtain ga p1 gr
    where a: "(ga, p1) \<in> set (ends ic (Group n) p)"
      and rest: "(gr, q) \<in> set (ends ic (Seq (Star Space) (Group u)) p1)"
      and g0: "g = ga @ gr"
    by (rule ends_Seq_elim)
  from rest obtain gs p2 gc
    where b: "(gs, p2) \<in> set (ends ic (Star Space) p1)"
      and c: "(gc, q) \<in> set (ends ic (Group u) p2)"
      and g1: "gr = gs @ gc"
    by (rule ends_Seq_elim)
  from b have b': "p2 \<in> set (star_ends ic Space p1)" and gs: "gs = []" by auto
  from ends_group [OF ng(1) a] obtain g1 where g1': "ga = [g1]" "snd p = g1 @ snd p1" by blast
  from star_ends_suffix [OF b'] obtain gap where gap: "snd p1 = gap @ snd p2" "list_all is_space gap"
    by (auto simp: list_all_iff)
  from ends_group [OF ng(2) c] obtain g2 where g2: "gc = [g2]" "snd p2 = g2 @ snd q" by blast
  from g0 g1 gs g1' gap g2 show ?thesis by simp
qed

lemma match_at_in_ends:
  "match_at ic r p = Some m \<Longrightarrow> m \<in> set (ends ic r p)"
  by (auto simp: match_at_def split: list.splits)

lemma search_from_match:
  "search_from ic r prev s = Some g \<Longrightarrow>
     \<exists>pre rest prev' q. s = pre @ rest \<and> (g, q) \<in> set (ends ic r (prev', rest))"
proof (induction s arbitrary: prev)
  case Nil
  then obtain m where m: "match_at ic r (prev, []) = Some m" "fst m = g" by auto
  from m(2) have "(g, snd m) = m" by (simp add: prod_eq_iff)
  with match_at_in_ends [OF m(1)] have "(g, snd m) \<in> set (ends ic r (prev, []))"
    by simp
  then have "[] = [] @ [] \<and> (g, snd m) \<in> set (ends ic r (prev, []))" by simp
  then show ?case by (intro exI)
next
  case (Cons c cs)
  show ?case
  proof (cases "match_at ic r (prev, c # cs)")
    case None
    with Cons.prems have "search_from ic r (Some c) cs = Some g" by simp
    from Cons.IH [OF this] obtain pre rest prev' q
      where a: "cs = pre @ rest" "(g, q) \<in> set (ends ic r (prev', rest))" by blast
    then have "c # cs = (c # pre) @ rest \<and> (g, q) \<in> set (ends ic r (prev', rest))" by simp
    then show ?thesis by (intro exI)
  next
    case (Some m)
    with Cons.prems have "fst m = g" by simp
    then have "(g, snd m) = m" by (simp add: prod_eq_iff)
    with match_at_in_ends [OF Some] have "(g, snd m) \<in> set (ends ic r (prev, c # cs))"
      by simp
    then have "c # cs = [] @ (c # cs) \<and> (g, snd m) \<in> set (ends ic r (prev, c # cs))" by simp
    then show ?thesis by (intro exI)
  qed
qed

lemma size_patterns_form:
  "pat \<in> set size_patterns \<Longrightarrow>
     \<exists>n u. pat = Seq (Group n) (Seq (Star Space) (Group u)) \<and> no_groups n \<and> no_groups u"
  by (auto simp: size_patterns_def size_pat_def number_pat_def)

lemma size_match_verbatim:
  assumes "pat \<in> set size_patterns" "re_search True pat s = Some m"
  shows "\<exists>g1 g2 pre gap post. m = [g1, g2] \<and> s = pre @ g1 @ gap @ g2 @ post \<and> list_all is_space gap"
proof -
  from size_patterns_form [OF assms(1)] obtain n u
    where pat: "pat = Seq (Group n) (Seq (Star Space) (Group u))" and ng: "no_groups n" "no_groups u"
    by blast
  from assms(2) have "search_from True pat None s = Some m" by (simp add: re_search_def)
  from search_from_match [OF this] obtain pre rest prev' q
    where s: "s = pre @ rest" and m: "(m, q) \<in> set (ends True pat (prev', rest))"
    by blast
  from ends_size_pat [OF ng m [unfolded pat]] obtain g1 gap g2
    where "m = [g1, g2]" "rest = g1 @ gap @ g2 @ snd q" "list_all is_space gap" by auto
  with s have "m = [g1, g2] \<and> s = pre @ g1 @ gap @ g2 @ snd q \<and> list_all is_space gap" by simp
  then show ?thesis by (intro exI)
qed

lemma find_SomeD: "find P xs = Some x \<Longrightarrow> P x \<and> x \<in> set xs"
  by (induction xs) (auto split: if_splits)

lemma first_pattern_match_find:
  "first_pattern_match txt pats =
     (case find (\<lambda>pat. re_search True pat txt \<noteq> None) pats of
        None \<Rightarrow> None | Some pat \<Rightarrow> re_search True pat txt)"
  by (induction pats) (auto split: option.splits)

lemma find_map_Pair_append:
  "find P (map (Pair x) ys @ zs) =
     (case find (\<lambda>y. P (x, y)) ys of Some y \<Rightarrow> Some (x, y) | None \<Rightarrow> find P zs)"
  by (induction ys) auto

lemma find_product_Cons:
  "find P (List.product (x # xs) ys) =
     (case find (\<lambda>y. P (x, y)) ys of
        Some y \<Rightarrow> Some (x, y)
      | None \<Rightarrow> find P (List.product xs ys))"
  by (simp add: find_map_Pair_append)

lemma first_combination_Cons:
  "first_combination (v # srcs) =
     (if falsy v then first_combination srcs
      else case find (\<lambda>pat. re_search True pat (the v) \<noteq> None) size_patterns of
             Some pat \<Rightarrow> Some (the v, pat)
           | None \<Rightarrow> first_combination srcs)"
  by (simp add: first_combination_def truthy_texts_def find_map_Pair_append
      split: option.split)

lemma size_loop_find:
  "size_loop srcs =
     (case first_combination srcs of
        None \<Rightarrow> Inr NA
      | Some (s, pat) \<Rightarrow>
          (case re_search True pat s of
             Some (g1 # g2 # rest) \<Rightarrow> Inr (g1 @ g2)
           | _ \<Rightarrow> Inl IndexError))"
proof (induction srcs)
  case Nil
  then show ?case by (simp add: first_combination_def truthy_texts_def)
next
  case (Cons v srcs)
  show ?case
  proof (cases "falsy v")
    case True
    with Cons show ?thesis by (simp add: first_combination_Cons)
  next
    case False
    then obtain s where v: "v = Some s" "s \<noteq> []" by (cases v) auto
    show ?thesis
    proof (cases "find (\<lambda>pat. re_search True pat s \<noteq> None) size_patterns")
      case None
      with Cons v show ?thesis
        by (simp add: first_combination_Cons search_text_for_patterns_def
            first_pattern_match_find)
    next
      case (Some pat)
      from find_SomeD [OF this] have "re_search True pat s \<noteq> None" by simp
      then obtain m where m: "re_search True pat s = Some m" by blast
      with Some v show ?thesis
        by (simp add: first_combination_Cons search_text_for_patterns_def
            first_pattern_match_find)
    qed
  qed
qed

lemma first_combination_SomeD:
  assumes "first_combination srcs = Some (s, pat)"
  shows "pat \<in> set size_patterns \<and> re_search True pat s \<noteq> None"
proof -
  from assms have "find (\<lambda>(s, pat). re_search True pat s \<noteq> None)
      (List.product (truthy_texts srcs) size_patterns) = Some (s, pat)"
    by (simp add: first_combination_def)
  from find_SomeD [OF this] show ?thesis by simp
qed

lemma empty_product_no_size:
  "first_combination [dict_get_or (name empty_product) [], Some [],
      dict_get_or (description empty_product) [], Some (attributes_text empty_product)] = None"
  by code_simp

lemma empty_product_contents: "detail_contents empty_product = Inr []"
  by (simp add: detail_contents_def empty_product_def)

section \<open>Properties of the size extractor\<close>

lemma dict_get_or_field_or: "f \<noteq> Null \<Longrightarrow> dict_get_or f dflt = Some (field_or f dflt)"
  by (cases f) simp_all

lemma those_contents:
  "list_all (\<lambda>d. content d \<noteq> Null) ds \<Longrightarrow>
     those (map (\<lambda>d. dict_get_or (content d) []) ds) =
       Some (map (\<lambda>d. field_or (content d) []) ds)"
  by (induction ds) (simp_all add: dict_get_or_field_or)

lemma detail_contents_joined:
  assumes "dict_get_or (details p) [] = Some ds" "list_all (\<lambda>d. content d \<noteq> Null) ds"
  shows "detail_contents p = Inr (join '' '' (map (\<lambda>d. field_or (content d) []) ds))"
  using assms(1) those_contents [OF assms(2)] by (simp add: detail_contents_def)

text \<open>
  The search order for a product whose \<open>details\<close> is absent or a list, with no content
  that is \<open>null\<close>: \<open>extract_size_volume\<close> searches the name, the contents of the details
  joined with a space (an absent content counting as empty), the description and the
  text of the attributes (\<open>{}\<close> when absent), in this order, each with all of
  \<open>size_patterns\<close> in their order before the next source. For the first source and
  pattern with a match it returns the two groups of that match, the number and the unit,
  one after the other; both stand in the source as they are returned, with nothing but
  whitespace between them. When no source and pattern match it returns \<open>"N/A"\<close>.
\<close>

lemma size_loop_first_match:
  assumes "detail_contents p = Inr joined"
  shows "case first_combination [dict_get_or (name p) [], Some joined,
                dict_get_or (description p) [], Some (attributes_text p)] of
           None \<Rightarrow> extract_size_volume p = Inr NA
         | Some (s, pat) \<Rightarrow>
             (\<exists>g1 g2 pre gap post.
                re_search True pat s = Some [g1, g2] \<and> s = pre @ g1 @ gap @ g2 @ post \<and>
                list_all is_space gap \<and> extract_size_volume p = Inr (g1 @ g2))"
proof -
  let ?srcs = "[dict_get_or (name p) [], Some joined,
                dict_get_or (description p) [], Some (attributes_text p)]"
  have loop: "p \<noteq> empty_product \<Longrightarrow> extract_size_volume p = size_loop ?srcs"
    using assms by (simp add: extract_size_volume_def search_fields_def)
  show ?thesis
  proof (cases "first_combination ?srcs")
    case None
    show ?thesis
    proof (cases "p = empty_product")
      case True
      with None show ?thesis by (simp add: extract_size_volume_def)
    next
      case False
      from loop [OF False] size_loop_find [of ?srcs] None show ?thesis by simp
    qed
  next
    case (Some sp)
    obtain s pat where sp: "sp = (s, pat)" by (cases sp)
    have ne: "p \<noteq> empty_product"
    proof
      assume e: "p = empty_product"
      with assms empty_product_contents have "joined = []" by simp
      with e Some empty_product_no_size show False by simp
    qed
    from Some sp have f: "first_combination ?srcs = Some (s, pat)" by simp
    from first_combination_SomeD [OF f]
    have pat: "pat \<in> set size_patterns" and hit: "re_search True pat s \<noteq> None" by simp_all
    from hit obtain m where m: "re_search True pat s = Some m" by blast
    from size_match_verbatim [OF pat m] obtain g1 g2 pre gap post
      where v: "m = [g1, g2]" "s = pre @ g1 @ gap @ g2 @ post" "list_all is_space gap"
      by blast
    have "extract_size_volume p = Inr (g1 @ g2)"
      using loop [OF ne] size_loop_find [of ?srcs] f m v(1) by simp
    with m v have "re_search True pat s = Some [g1, g2] \<and> s = pre @ g1 @ gap @ g2 @ post \<and>
                list_all is_space gap \<and> extract_size_volume p = Inr (g1 @ g2)" by simp
    then have "\<exists>g1 g2 pre gap post.
                re_search True pat s = Some [g1, g2] \<and> s = pre @ g1 @ gap @ g2 @ post \<and>
                list_all is_space gap \<and> extract_size_volume p = Inr (g1 @ g2)"
      by (intro exI)
    with f show ?thesis by simp
  qed
qed

lemma extract_size_volume_in_order:
  assumes "dict_get_or (details p) [] = Some ds" and "list_all (\<lambda>d. content d \<noteq> Null) ds"
  shows "case first_combination
                [dict_get_or (name p) [],
                 Some (join '' '' (map (\<lambda>d. field_or (content d) []) ds)),
                 dict_get_or (description p) [],
                 Some (case attributes p of
                         Absent \<Rightarrow> ''{}'' | Null \<Rightarrow> ''None'' | Present s \<Rightarrow> s)] of
           None \<Rightarrow> extract_size_volume p = Inr NA
         | Some (s, pat) \<Rightarrow>
             (\<exists>g1 g2 pre gap post.
                re_search True pat s = Some [g1, g2] \<and> s = pre @ g1 @ gap @ g2 @ post \<and>
                list_all is_space gap \<and> extract_size_volume p = Inr (g1 @ g2))"
  using size_loop_first_match [OF detail_contents_joined [OF assms]]
  by (simp add: attributes_text_def)

text \<open>At six products: \<open>"50ml"\<close> from the name; the count in the name, found by the
  sixth pattern, wins over the volume in the details, which the first pattern would find;
  \<open>"N/A"\<close> when nothing matches; and a size taken from the details, from the description
  and from the attributes, the unit spelled as it stands there.\<close>

lemma extract_size_volume_in_order_examples:
  "extract_size_volume cream_50ml = Inr ''50ml''
   \<and> extract_size_volume soap_pieces = Inr ''5Pieces''
   \<and> extract_size_volume plain_cream = Inr ''N/A''
   \<and> extract_size_volume jar_details = Inr ''50ml''
   \<and> extract_size_volume jar_description = Inr ''75g''
   \<and> extract_size_volume jar_attributes = Inr ''200mL''"
proof -
  have a1: "dict_get_or (details cream_50ml) [] = Some []" by code_simp
  have a2: "first_combination [dict_get_or (name cream_50ml) [], Some (join '' '' []),
                dict_get_or (description cream_50ml) [],
                Some (case attributes cream_50ml of
                        Absent \<Rightarrow> ''{}'' | Null \<Rightarrow> ''None'' | Present s \<Rightarrow> s)]
            = Some (''Moisturizing Cream 50ml'', size_patterns ! 0)" by code_simp
  have a3: "re_search True (size_patterns ! 0) ''Moisturizing Cream 50ml'' = Some [''50'', ''ml'']"
    by code_simp
  from extract_size_volume_in_order [OF a1] a2 a3
  have a: "extract_size_volume cream_50ml = Inr ''50ml''" by auto
  have "extract_size_volume soap_pieces = Inr ''5Pieces''
   \<and> extract_size_volume plain_cream = Inr ''N/A''
   \<and> extract_size_volume jar_details = Inr ''50ml''
   \<and> extract_size_volume jar_description = Inr ''75g''
   \<and> extract_size_volume jar_attributes = Inr ''200mL''"
    by code_simp
  with a show ?thesis by simp
qed

text \<open>
  C6: the claim is that the size is taken from the first source and pattern that match,
  the name being the first source. At the product \<open>{"name": "Day Cream 50ml", "details":
  null}\<close> the first source and pattern with a match are the name and the millilitre
  pattern, with the groups \<open>50\<close> and \<open>ml\<close>, yet \<open>extract_size_volume\<close> raises \<open>TypeError\<close>:
  line 293 builds the second source, iterating the \<open>null\<close> details, before any source
  is searched. With the \<open>details\<close> key absent the same product gives \<open>"50ml"\<close>.
\<close>

theorem extract_size_volume_null_details:
  "first_combination [dict_get_or (name null_details) []] =
     Some (''Day Cream 50ml'', size_patterns ! 0)
   \<and> re_search True (size_patterns ! 0) ''Day Cream 50ml'' = Some [''50'', ''ml'']
   \<and> extract_size_volume null_details = Inl TypeError
   \<and> extract_size_volume (null_details\<lparr>details := Absent\<rparr>) = Inr ''50ml''"
  by code_simp

section \<open>Properties of the line name inferrer\<close>

lemma collect_words_takeWhile:
  "collect_words parts acc = acc @ takeWhile qualifies parts"
  by (induction parts arbitrary: acc) auto

text \<open>
  C4, as the claim states it, fails: for the name \<open>Nivea Sun\<close> of the brand \<open>Nivea\<close> the
  one remaining token qualifies and has no generic term, so the claim gives \<open>Sun\<close>; the
  code returns \<open>"N/A"\<close>, because line 344 enters the collection only when more than one
  token remains.
\<close>

theorem line_name_single_token_counterexample:
  "claimed_line_from_name ''Nivea Sun'' ''Nivea'' = ''Sun''
   \<and> extract_product_line_name nivea_sun = Inr ''N/A''"
  by code_simp

text \<open>
  C4, amended: when the loop over the details returns no line name and the brand name
  is a non-empty substring of the product name, \<open>extract_product_line_name\<close> removes every
  occurrence of the brand from the name, strips and splits the rest, and returns \<open>"N/A"\<close>
  when fewer than two tokens remain; otherwise it takes the longest prefix of the first
  three tokens in which every token starts with a capital and has more than two
  characters, returns \<open>"N/A"\<close> when that prefix is empty or its space-joined text contains
  a generic term in lower case, and the space-joined text otherwise.
\<close>

theorem line_from_name_prefix:
  assumes "dict_get_or (details p) [] = Some ds"
    and "line_from_details ds = Inr None"
    and "dict_get_or (name p) [] = Some pn"
    and "get_brand_name p [] = Inr (Some bn)"
    and "bn \<noteq> []"
    and "contains pn bn"
  shows "extract_product_line_name p =
     Inr (let tokens = split_ws (strip (remove_all bn pn));
              candidate = takeWhile qualifies (take 3 tokens)
          in if length tokens < 2 then NA
             else if candidate = [] then NA
             else if list_ex (\<lambda>term. contains (lower (join '' '' candidate)) term) generic_terms
             then NA
             else join '' '' candidate)"
  using assms
  by (simp add: extract_product_line_name_def strategy2_def line_from_name_def
      collect_words_takeWhile Let_def)

text \<open>At three products: three qualifying tokens are joined; a candidate with
  \<open>moisturiser\<close> is rejected; a single remaining token gives \<open>"N/A"\<close>.\<close>

theorem line_from_name_prefix_witness:
  "extract_product_line_name nivea_sun_kids = Inr ''Sun Protect Kids''
   \<and> extract_product_line_name nivea_daily = Inr ''N/A''
   \<and> extract_product_line_name nivea_sun = Inr ''N/A''"
proof -
  have a: "extract_product_line_name nivea_sun_kids = Inr ''Sun Protect Kids''"
  proof -
    have 1: "dict_get_or (details nivea_sun_kids) [] =
        Some [\<lparr>content_label = Present ''Ingredients'', content = Present ''Aqua''\<rparr>]"
      by (simp add: nivea_sun_kids_def empty_product_def)
    have 2: "line_from_details
        [\<lparr>content_label = Present ''Ingredients'', content = Present ''Aqua''\<rparr>] = Inr None"
      by code_simp
    have 3: "dict_get_or (name nivea_sun_kids) [] = Some ''Nivea Sun Protect Kids 200ml''"
      by (simp add: nivea_sun_kids_def empty_product_def)
    have 4: "get_brand_name nivea_sun_kids [] = Inr (Some ''Nivea'')"
      by (simp add: nivea_sun_kids_def empty_product_def get_brand_name_def)
    have 5: "''Nivea'' \<noteq> []" by simp
    have 6: "contains ''Nivea Sun Protect Kids 200ml'' ''Nivea''" by code_simp
    have 7: "(let tokens = split_ws (strip (remove_all ''Nivea'' ''Nivea Sun Protect Kids 200ml''));
              candidate = takeWhile qualifies (take 3 tokens)
          in if length tokens < 2 then NA
             else if candidate = [] then NA
             else if list_ex (\<lambda>term. contains (lower (join '' '' candidate)) term) generic_terms
             then NA
             else join '' '' candidate) = ''Sun Protect Kids''"
      by code_simp
    from line_from_name_prefix [OF 1 2 3 4 5 6] 7 show ?thesis by simp
  qed
  have b: "extract_product_line_name nivea_daily = Inr ''N/A''"
  proof -
    have 1: "dict_get_or (details nivea_daily) [] = Some []"
      by (simp add: nivea_daily_def empty_product_def)
    have 2: "line_from_details [] = Inr None" by simp
    have 3: "dict_get_or (name nivea_daily) [] = Some ''Nivea Daily Moisturiser 200ml''"
      by (simp add: nivea_daily_def empty_product_def)
    have 4: "get_brand_name nivea_daily [] = Inr (Some ''Nivea'')"
      by (simp add: nivea_daily_def empty_product_def get_brand_name_def)
    have 5: "''Nivea'' \<noteq> []" by simp
    have 6: "contains ''Nivea Daily Moisturiser 200ml'' ''Nivea''" by code_simp
    have 7: "(let tokens = split_ws (strip (remove_all ''Nivea'' ''Nivea Daily Moisturiser 200ml''));
              candidate = takeWhile qualifies (take 3 tokens)
          in if length tokens < 2 then NA
             else if candidate = [] then NA
             else if list_ex (\<lambda>term. contains (lower (join '' '' candidate)) term) generic_terms
             then NA
             else join '' '' candidate) = ''N/A''"
      by code_simp
    from line_from_name_prefix [OF 1 2 3 4 5 6] 7 show ?thesis by simp
  qed
  have c: "extract_product_line_name nivea_sun = Inr ''N/A''"
  proof -
    have 1: "dict_get_or (details nivea_sun) [] = Some []"
      by (simp add: nivea_sun_def empty_product_def)
    have 2: "line_from_details [] = Inr None" by simp
    have 3: "dict_get_or (name nivea_sun) [] = Some ''Nivea Sun''"
      by (simp add: nivea_sun_def empty_product_def)
    have 4: "get_brand_name nivea_sun [] = Inr (Some ''Nivea'')"
      by (simp add: nivea_sun_def empty_product_def get_brand_name_def)
    have 5: "''Nivea'' \<noteq> []" by simp
    have 6: "contains ''Nivea Sun'' ''Nivea''" by code_simp
    have 7: "(let tokens = split_ws (strip (remove_all ''Nivea'' ''Nivea Sun''));
              candidate = takeWhile qualifies (take 3 tokens)
          in if length tokens < 2 then NA
             else if candidate = [] then NA
             else if list_ex (\<lambda>term. contains (lower (join '' '' candidate)) term) generic_terms
             then NA
             else join '' '' candidate) = ''N/A''"
      by code_simp
    from line_from_name_prefix [OF 1 2 3 4 5 6] 7 show ?thesis by simp
  qed
  from a b c show ?thesis by simp
qed

section \<open>Null values\<close>

text \<open>
  C2: the claim is that no core function raises, also for keys that hold \<open>null\<close>. At a
  product whose \<open>details\<close> is \<open>null\<close>, or whose detail has a \<open>null\<close> content,
  \<open>extract_size_volume\<close> raises \<open>TypeError\<close> (line 293), and \<open>extract_product_line_name\<close>
  raises \<open>TypeError\<close> on \<open>null\<close> details (line 324) and \<open>AttributeError\<close> on a \<open>null\<close> brand
  (line 335), while \<open>extract_detail\<close> returns the empty string for the same details.
\<close>

theorem null_fields_raise:
  "extract_size_volume null_details = Inl TypeError
   \<and> extract_size_volume null_content = Inl TypeError
   \<and> extract_product_line_name null_details = Inl TypeError
   \<and> extract_product_line_name null_brand = Inl AttributeError
   \<and> extract_detail (dict_get (details null_details)) ''Ingredients'' = []
   \<and> extract_detail (dict_get (details null_content)) ''Ingredients'' = []"
  by code_simp

section \<open>Properties of the record normalizer\<close>

text \<open>
  C3: the claim is that every field of the row is a string, never \<open>null\<close>, with the
  sentinel standing in for what the record lacks. For a product whose \<open>upc\<close> is \<open>null\<close>
  the row holds \<open>None\<close> in the barcode column, and the gate reports the barcode as
  missing; for a product whose \<open>price\<close> is \<open>null\<close> the row holds the text \<open>"None"\<close> in
  the price column, which the gate accepts. The fallback of \<open>prod.get(key, "N/A")\<close>
  stands in for an absent key only: with both keys absent the row holds \<open>"N/A"\<close> in both
  columns.
\<close>

theorem null_values_in_row:
  "map_sum id (\<lambda>r. (r ''Barcode (EAN/UPC)'', validate_completeness r))
      (normalize ''day-cream'' (day_cream\<lparr>upc := Null\<rparr>)) =
     Inr (Some None, False, Some ''Barcode (EAN/UPC)'')
   \<and> map_sum id (\<lambda>r. (r ''Price'', validate_completeness r))
      (normalize ''day-cream'' (day_cream\<lparr>price := Null\<rparr>)) =
     Inr (Some (Some ''None''), True, None)
   \<and> map_sum id (\<lambda>r. (r ''Barcode (EAN/UPC)'', r ''Price''))
      (normalize ''day-cream'' (day_cream\<lparr>upc := Absent, price := Absent\<rparr>)) =
     Inr (Some (Some ''N/A''), Some (Some ''N/A''))"
  by code_simp

section \<open>Properties of the ingredient formatter\<close>

lemma match_at_period:
  "match_at False period_pat (prev, s) =
     (case s of [] \<Rightarrow> None
      | c # cs \<Rightarrow> if c = CHR ''.'' \<and> \<not> digit_next cs then Some ([], (Some c, cs)) else None)"
  by (cases s; cases "tl s")
     (auto simp: match_at_def period_pat_def digit_next_def split: list.splits)

lemma sub_from_period:
  "sub_from period_pat '','' prev s = periods_to_commas s"
  by (induction s arbitrary: prev) (simp_all add: match_at_period)

lemma re_sub_period: "re_sub period_pat '','' s = periods_to_commas s"
  by (simp add: re_sub_def sub_from_period)

lemma length_periods_to_commas: "length (periods_to_commas s) = length s"
  by (induction s) simp_all

lemma periods_to_commas_nth:
  "i < length s \<Longrightarrow>
   periods_to_commas s ! i =
     (if s ! i = CHR ''.'' \<and> \<not> (Suc i < length s \<and> is_digit (s ! Suc i))
      then CHR '','' else s ! i)"
proof (induction s arbitrary: i)
  case Nil
  then show ?case by simp
next
  case (Cons c cs)
  show ?case
  proof (cases i)
    case 0
    then show ?thesis by (cases cs) (simp_all add: digit_next_def)
  next
    case (Suc j)
    with Cons show ?thesis by simp
  qed
qed

text \<open>
  C5: the substitution of line 114 turns every period that is not immediately followed by
  a digit into a comma and changes nothing else, position by position; and for a text
  that is not empty, not \<open>"N/A"\<close> and not blank after sanitizing, \<open>clean_ingredients\<close> is
  that step on the sanitized text followed by the title case, the function words, the
  comma and space clean-up and the final strip.
\<close>

theorem clean_ingredients_periods:
  "re_sub period_pat '','' s = periods_to_commas s
   \<and> length (periods_to_commas s) = length s
   \<and> (\<forall>i < length s.
         periods_to_commas s ! i =
           (if s ! i = CHR ''.'' \<and> \<not> (Suc i < length s \<and> is_digit (s ! Suc i))
            then CHR '','' else s ! i))
   \<and> (x \<noteq> [] \<and> x \<noteq> ''N/A'' \<and> strip (clean_text (Some x)) \<noteq> [] \<longrightarrow>
        clean_ingredients (Some x) =
          Some (rstrip '', '' (strip (re_sub spaces_pat '' '' (re_sub comma_space_pat '', ''
            (re_sub commas_pat '','' (apply_fixes common_fixes
              (title (periods_to_commas (clean_text (Some x)))))))))))"
proof -
  have "strip [] = []" by (simp add: strip_def)
  then have "strip (clean_text (Some x)) \<noteq> [] \<Longrightarrow> clean_text (Some x) \<noteq> []"
    by auto
  then show ?thesis
    by (auto simp: re_sub_period length_periods_to_commas periods_to_commas_nth
        clean_ingredients_def format_steps_def Let_def)
qed

text \<open>At the two texts of the docstring: the decimal point of \<open>1.5%\<close> stays, the other
  periods become commas, and the results are the documented ones.\<close>

theorem clean_ingredients_periods_witness:
  "clean_ingredients (Some ''GLYCERIN (1.5%), WATER. SODIUM CHLORIDE.'') =
     Some ''Glycerin (1.5%), Water, Sodium Chloride''
   \<and> clean_ingredients (Some ''AQUA, GLYCERIN, SODIUM LAURYL SULFATE. FRAGRANCE.'') =
     Some ''Aqua, Glycerin, Sodium Lauryl Sulfate, Fragrance''
   \<and> re_sub period_pat '','' ''GLYCERIN (1.5%), WATER. SODIUM CHLORIDE.'' =
     ''GLYCERIN (1.5%), WATER, SODIUM CHLORIDE,''"
proof -
  let ?a = "''GLYCERIN (1.5%), WATER. SODIUM CHLORIDE.''"
  let ?b = "''AQUA, GLYCERIN, SODIUM LAURYL SULFATE. FRAGRANCE.''"
  have a1: "?a \<noteq> [] \<and> ?a \<noteq> ''N/A'' \<and> strip (clean_text (Some ?a)) \<noteq> []" by code_simp
  have a2: "rstrip '', '' (strip (re_sub spaces_pat '' '' (re_sub comma_space_pat '', ''
            (re_sub commas_pat '','' (apply_fixes common_fixes
              (title (periods_to_commas (clean_text (Some ?a)))))))))
            = ''Glycerin (1.5%), Water, Sodium Chloride''" by code_simp
  have b1: "?b \<noteq> [] \<and> ?b \<noteq> ''N/A'' \<and> strip (clean_text (Some ?b)) \<noteq> []" by code_simp
  have b2: "rstrip '', '' (strip (re_sub spaces_pat '' '' (re_sub comma_space_pat '', ''
            (re_sub commas_pat '','' (apply_fixes common_fixes
              (title (periods_to_commas (clean_text (Some ?b)))))))))
            = ''Aqua, Glycerin, Sodium Lauryl Sulfate, Fragrance''" by code_simp
  have c: "periods_to_commas ?a = ''GLYCERIN (1.5%), WATER, SODIUM CHLORIDE,''" by code_simp
  from clean_ingredients_periods [of ?a ?a] a1 a2
  have a: "clean_ingredients (Some ?a) = Some ''Glycerin (1.5%), Water, Sodium Chloride''"
    by simp
  from clean_ingredients_periods [of ?b ?b] b1 b2
  have b: "clean_ingredients (Some ?b) =
      Some ''Aqua, Glycerin, Sodium Lauryl Sulfate, Fragrance''"
    by simp
  from clean_ingredients_periods [of ?a ?a] c
  have "re_sub period_pat '','' ?a = ''GLYCERIN (1.5%), WATER, SODIUM CHLORIDE,''" by simp
  with a b show ?thesis by simp
qed

text \<open>
  C1: the claim is that formatting a formatted list changes nothing. The step that
  removes repeated commas (line 146, \<open>,\s*,+\<close>) replaces the first two commas of
  \<open>"b, , , c"\<close> and resumes after them, so the third comma stays, two commas with a space
  between them are left in the result, and a second application removes them.
\<close>

theorem clean_ingredients_not_idempotent:
  "clean_ingredients (Some ''b, , , c'') = Some ''B, , C''
   \<and> clean_ingredients (Some ''B, , C'') = Some ''B, C''"
  by code_simp

end
